theory Spec2Isabelle
  imports Main
begin

section \<open>Values shared by the two classes of Optimizer.py\<close>

text \<open>
  The module holds two classes: \<open>ModelSource\<close>, which keeps the OPL source of a model as
  a list of URLs or a list of strings, and \<open>Optimizer\<close>, which submits one job per
  \<open>solve\<close> call to the DOcplexcloud service.  Python exceptions are values of
  \<open>error\<close>; a call that may raise returns \<open>error + 'a\<close> with \<open>Inl\<close> the exception.
\<close>

type_synonym url = string

datatype error =
    ValueError string
  | TypeError string
  | AttributeError string
  | NameError string
  | AssertionError string
  | UnboundLocalError string
  | ServiceError string

text \<open>
  The file-like objects the module creates: a string buffer \<open>cStringIO.StringIO(s)\<close> and
  the object \<open>fileinput.input(files)\<close> over its files.
\<close>

datatype stream =
    FileInput "stream list"
  | StringIO string

text \<open>
  \<open>urllib.FancyURLopener(f)\<close>, as the module calls it in \<open>toStream\<close> and in \<open>solve\<close>.
  The constructor hands its first argument to \<open>URLopener.__init__\<close> as \<open>proxies\<close>, which
  asserts that it is a mapping; the module passes a URL, so the call raises and no opener
  comes into being.
\<close>

definition FancyURLopener :: "url \<Rightarrow> error + stream" where
  "FancyURLopener f = Inl (AssertionError ''proxies must be a mapping'')"

text \<open>
  \<open>fileinput.input(files)\<close> on a generator: the constructor turns the generator into a
  tuple, which runs it to its end; the first element that raises ends the call.
\<close>

fun generator_tuple :: "(error + 'a) list \<Rightarrow> error + 'a list" where
  "generator_tuple [] = Inr []"
| "generator_tuple (Inl e # rest) = Inl e"
| "generator_tuple (Inr x # rest) =
     (case generator_tuple rest of Inl e \<Rightarrow> Inl e | Inr xs \<Rightarrow> Inr (x # xs))"

definition fileinput_input :: "(error + stream) list \<Rightarrow> error + stream" where
  "fileinput_input files =
     (case generator_tuple files of Inl e \<Rightarrow> Inl e | Inr fs \<Rightarrow> Inr (FileInput fs))"

text \<open>
  Python's truth value of an optional list (\<open>if xs:\<close>): \<open>None\<close> and the empty list are
  false.  \<open>items\<close> gives the elements an iteration over it visits.
\<close>

fun truthy :: "'a list option \<Rightarrow> bool" where
  "truthy None = False"
| "truthy (Some xs) = (xs \<noteq> [])"

fun items :: "'a list option \<Rightarrow> 'a list" where
  "items None = []"
| "items (Some xs) = xs"

section \<open>class ModelSource\<close>

record ModelSource =
  name_ms :: string
  dotMods :: "url list option"
  modelText :: "string list option"

text \<open>\<open>ModelSource.__init__(name, dotMods, modelText)\<close>: an empty list is refused, \<open>None\<close> is not.\<close>

definition ModelSource_init ::
  "string \<Rightarrow> url list option \<Rightarrow> string list option \<Rightarrow> error + ModelSource" where
  "ModelSource_init name dotMods' modelText' =
     (if dotMods' \<noteq> None \<and> \<not> truthy dotMods' then Inl (ValueError ''argument cannot be empty'')
      else if modelText' \<noteq> None \<and> \<not> truthy modelText' then Inl (ValueError ''argument cannot be empty'')
      else Inr \<lparr>name_ms = name, dotMods = dotMods', modelText = modelText'\<rparr>)"

definition getName_ms :: "ModelSource \<Rightarrow> string" where
  "getName_ms self = name_ms self"

definition isEmpty :: "ModelSource \<Rightarrow> bool" where
  "isEmpty self = (dotMods self = None \<and> modelText self = None)"

text \<open>
  \<open>ModelSource.toStream\<close>: the URL branch is tried first, with one
  \<open>urllib.FancyURLopener(f)\<close> per URL handed to \<open>fileinput.input\<close>; then the text branch
  (\<open>"".join(self.modelText)\<close>); with neither the method raises.
\<close>

definition toStream :: "ModelSource \<Rightarrow> error + stream" where
  "toStream self =
     (if truthy (dotMods self) then fileinput_input (map FancyURLopener (items (dotMods self)))
      else if truthy (modelText self) then Inr (StringIO (concat (items (modelText self))))
      else Inl (ValueError ''model source is empty''))"

section \<open>The collaborators of Optimizer\<close>

type_synonym handle = nat
type_synonym schema = "(string \<times> string) list"

text \<open>
  Modelled from the spec: \<open>OPLCollector\<close> is a class of this repository that is not in
  Optimizer.py.  The spec describes it as a structured result object "constructed from a
  problem name, a result-name suffix, and a result schema" that "exposes a deserialization
  operation that consumes a byte stream and populates itself according to the schema".  A
  collector is its name, its schema and the tables it holds; the (de)serialisation of the
  tables is a parameter.
\<close>

record 'd OPLCollector =
  name_coll :: string
  dataModel :: "schema option"
  tables :: 'd

text \<open>
  Modelled from the spec: \<open>OPLCollector(name, schema).setJsonSource(results).fromJSON()\<close>,
  where \<open>bytes\<close> is what the source stream holds.
\<close>

definition OPLCollector_fromJSON ::
  "(schema option \<Rightarrow> string \<Rightarrow> error + 'd) \<Rightarrow> string \<Rightarrow> schema option \<Rightarrow> string
     \<Rightarrow> error + 'd OPLCollector" where
  "OPLCollector_fromJSON deserialize nm sch bytes =
     (case deserialize sch bytes of
        Inl e \<Rightarrow> Inl e
      | Inr d \<Rightarrow> Inr \<lparr>name_coll = nm, dataModel = sch, tables = d\<rparr>)"

text \<open>
  The execution status of a job.  The module tells \<open>PROCESSED\<close> and \<open>FAILED\<close> from every
  other status, which it only prints.
\<close>

datatype JobExecutionStatus = PROCESSED | FAILED | OtherStatus string

text \<open>
  The field \<open>solveStatus\<close> holds \<open>JobSolveStatus.UNKNOWN\<close> or the result of
  \<open>response.job_info.get('solveStatus')\<close>, which is \<open>None\<close> for a missing key.
\<close>

datatype solve_status = UNKNOWN | Reported "string option"

record JobResponse =
  jobid :: string
  solution :: string
  job_info :: "string \<rightharpoonup> string"
  failureInfo :: "string option"

text \<open>
  The behaviour of the docloud library and of the collectors during one \<open>solve\<close> call:
  the serialisation of the input collector, the job client's \<open>execute\<close>,
  \<open>get_execution_status\<close> and \<open>delete_job\<close>, and the deserialisation of the solution.
  Each may raise.  Two expressions of \<open>solve\<close> depend on what docloud's objects are:
  \<open>getJob\<close> tells whether \<open>response.getJob()\<close> raises (it does when the response has no
  such method), and \<open>status_line\<close> is the value of \<open>"Job Status: " + status\<close> for the
  status of the given name (it raises when the status is an enumeration member, not a
  string).
\<close>

record 'd service =
  toJSON :: "'d OPLCollector \<Rightarrow> error + string"
  execute :: "(string \<times> stream) list \<Rightarrow> error + JobResponse"
  get_execution_status :: "string \<Rightarrow> error + JobExecutionStatus"
  deserialize :: "schema option \<Rightarrow> string \<Rightarrow> error + 'd"
  delete_job :: "string \<Rightarrow> error option"
  getJob :: "JobResponse \<Rightarrow> error option"
  status_line :: "string \<Rightarrow> error + string"

text \<open>
  What the module does outside its own object: the stream objects it has created
  (a handle is the position in \<open>streams\<close>), the handles \<open>close()\<close> was called on, the
  input lists passed to \<open>execute\<close>, the job ids passed to \<open>delete_job\<close>, and the lines
  printed.
\<close>

record world =
  streams :: "stream list"
  closedStreams :: "handle set"
  submitted :: "(string \<times> stream) list list"
  deleted :: "string list"
  printed :: "string list"

definition new_stream :: "stream \<Rightarrow> world \<Rightarrow> handle \<times> world" where
  "new_stream s w = (length (streams w), w\<lparr>streams := streams w @ [s]\<rparr>)"

definition close_stream :: "handle \<Rightarrow> world \<Rightarrow> world" where
  "close_stream h w = w\<lparr>closedStreams := insert h (closedStreams w)\<rparr>"

section \<open>class Optimizer\<close>

record Credentials =
  cred_url :: string
  cred_key :: string

record 'd Optimizer =
  name :: string
  model :: "ModelSource option"
  resultDataModel :: "schema option"
  attachments :: "(string \<times> url) list"
  streamsRegistry :: "handle list"
  history :: "'d OPLCollector list"
  credentials :: "Credentials option"
  jobclient :: "(string \<times> string) option"
  solveStatus :: solve_status
  jobid_self :: "string option"

definition getName :: "'d Optimizer \<Rightarrow> string" where
  "getName self = name self"

definition getSolveStatus :: "'d Optimizer \<Rightarrow> solve_status" where
  "getSolveStatus self = solveStatus self"

text \<open>
  \<open>Optimizer.setOPLModel\<close> and \<open>Optimizer.setResultDataModel\<close>.  A method that raises
  leaves the object as it was when the exception left it, so every method returns the
  object beside its result.
\<close>

definition setOPLModel ::
  "string \<Rightarrow> url list option \<Rightarrow> string list option \<Rightarrow> 'd Optimizer
     \<Rightarrow> (error + unit) \<times> 'd Optimizer" where
  "setOPLModel nm dotMods' modelText' self =
     (if model self \<noteq> None then (Inl (ValueError ''model has already been set''), self)
      else (case ModelSource_init nm dotMods' modelText' of
              Inl e \<Rightarrow> (Inl e, self)
            | Inr m \<Rightarrow> (Inr (), self\<lparr>model := Some m\<rparr>)))"

definition setResultDataModel ::
  "schema option \<Rightarrow> 'd Optimizer \<Rightarrow> (error + unit) \<times> 'd Optimizer" where
  "setResultDataModel resultDataModel' self =
     (if resultDataModel self \<noteq> None
      then (Inl (ValueError ''results data model has already been defined''), self)
      else (Inr (), self\<lparr>resultDataModel := resultDataModel'\<rparr>))"

text \<open>
  The expression \<open>os.path.splitext(os.path.basename(urlparse(f)))[0]\<close> of \<open>attachData\<close>.
  The module never imports \<open>os\<close>, so evaluating the expression raises \<open>NameError\<close> for
  every reference.  (With \<open>os\<close> bound the expression raises as well: \<open>urlparse(f)\<close> is a
  tuple of the URL's parts, and \<open>os.path.basename\<close> needs a string.)
\<close>

definition fileName_of :: "url \<Rightarrow> error + string" where
  "fileName_of f = Inl (NameError ''os'')"

text \<open>
  \<open>Optimizer.attachData\<close>.  The dictionary \<open>self.attachments\<close> is an association list
  in insertion order; a key is stored only when it is not yet present, so storing appends.
  Python leaves the iteration order of a dictionary open; no statement below depends on it.
  The method first assigns the empty dictionary, then runs the loop \<open>attachLoop\<close>.
\<close>

fun attachLoop ::
  "url list \<Rightarrow> (string \<times> url) list \<Rightarrow> (error + unit) \<times> (string \<times> url) list" where
  "attachLoop [] m = (Inr (), m)"
| "attachLoop (f # fs) m =
     (case fileName_of f of
        Inl e \<Rightarrow> (Inl e, m)
      | Inr fileName \<Rightarrow>
          if fileName \<in> fst ` set m then (Inl (ValueError (fileName @ '' already attached'')), m)
          else attachLoop fs (m @ [(fileName, f)]))"

definition attachData ::
  "url list option \<Rightarrow> 'd Optimizer \<Rightarrow> (error + unit) \<times> 'd Optimizer" where
  "attachData attachments' self =
     (case attachments' of
        None \<Rightarrow> (Inr (), self\<lparr>attachments := []\<rparr>)
      | Some fs \<Rightarrow>
          (case attachLoop fs [] of (r, m) \<Rightarrow> (r, self\<lparr>attachments := m\<rparr>)))"

text \<open>
  \<open>Optimizer.__init__\<close>.  \<open>attachData\<close> runs before the registry, the history and the
  job client are set; \<open>credentials["url"]\<close> raises when no credentials were given.  The
  attribute \<open>jobid\<close> does not exist before the first \<open>solve\<close>.
\<close>

definition Optimizer_init ::
  "string \<Rightarrow> ModelSource option \<Rightarrow> schema option \<Rightarrow> Credentials option
     \<Rightarrow> url list \<Rightarrow> error + 'd Optimizer" where
  "Optimizer_init problemName model' resultDataModel' credentials' attachments' =
     (let self0 = \<lparr>name = problemName, model = model', resultDataModel = resultDataModel',
                   attachments = [], streamsRegistry = [], history = [],
                   credentials = credentials', jobclient = None, solveStatus = UNKNOWN,
                   jobid_self = None\<rparr>
      in case attachData (Some attachments') self0 of
           (Inl e, _) \<Rightarrow> Inl e
         | (Inr _, self1) \<Rightarrow>
             (case credentials' of
                None \<Rightarrow> Inl (TypeError ''credentials'')
              | Some c \<Rightarrow> Inr (self1\<lparr>jobclient := Some (cred_url c, cred_key c)\<rparr>)))"

section \<open>Optimizer.solve\<close>

type_synonym 'd state = "'d Optimizer \<times> world"

text \<open>
  The truth value of \<open>self.model\<close> in \<open>if self.model:\<close>.  The class \<open>ModelSource\<close> defines
  neither \<open>__nonzero__\<close> nor \<open>__len__\<close>, so every instance is true; \<open>isEmpty\<close> is not asked.
\<close>

definition truth_value_ms :: "ModelSource \<Rightarrow> bool" where
  "truth_value_ms m = True"

text \<open>Creating a stream and appending it to \<open>self.streamsRegistry\<close>.\<close>

definition register :: "stream \<Rightarrow> 'd state \<Rightarrow> 'd state" where
  "register s st =
     (case st of (self, w) \<Rightarrow>
        (case new_stream s w of (h, w1) \<Rightarrow>
           (self\<lparr>streamsRegistry := streamsRegistry self @ [h]\<rparr>, w1)))"

text \<open>The model input: the check that a model is there, and the first \<open>if\<close> of \<open>solve\<close>.\<close>

definition model_input :: "'d state \<Rightarrow> (error + (string \<times> stream) list) \<times> 'd state" where
  "model_input st =
     (case model (fst st) of
        None \<Rightarrow> (Inl (ValueError ''A model attachment must be provided to the optimizer''), st)
      | Some m \<Rightarrow>
          if truth_value_ms m then
            (case toStream m of
               Inl e \<Rightarrow> (Inl e, st)
             | Inr s \<Rightarrow> (Inr [(getName_ms m, s)], register s st))
          else (Inr [], st))"

text \<open>
  The loop over \<open>self.attachments\<close>: one \<open>urllib.FancyURLopener\<close> per attachment, in
  the order of the dictionary, on the URL \<open>self.attachments[f]\<close> stored under the key
  \<open>f\<close>; an opener is appended to the inputs and to the registry.
\<close>

fun attachment_inputs ::
  "(string \<times> url) list \<Rightarrow> (string \<times> stream) list \<Rightarrow> 'd state
     \<Rightarrow> (error + (string \<times> stream) list) \<times> 'd state" where
  "attachment_inputs [] inputs st = (Inr inputs, st)"
| "attachment_inputs ((f, u) # rest) inputs st =
     (case FancyURLopener u of
        Inl e \<Rightarrow> (Inl e, st)
      | Inr s \<Rightarrow> attachment_inputs rest (inputs @ [(f, s)]) (register s st))"

text \<open>
  The variable input: \<open>outStream\<close> is created, the collector is serialised into it, and
  \<open>inStream\<close> is created from its value; both are registered after the serialisation, so
  a serialisation that raises leaves \<open>outStream\<close> outside the registry.
\<close>

definition data_input ::
  "'d service \<Rightarrow> 'd OPLCollector option \<Rightarrow> (string \<times> stream) list \<Rightarrow> 'd state
     \<Rightarrow> (error + (string \<times> stream) list) \<times> 'd state" where
  "data_input env inputData inputs st =
     (case inputData of
        None \<Rightarrow> (Inr inputs, st)
      | Some d \<Rightarrow>
          (case st of (self, w) \<Rightarrow>
             (case new_stream (StringIO []) w of (hout, w1) \<Rightarrow>
                (case toJSON env d of
                   Inl e \<Rightarrow> (Inl e, (self, w1))
                 | Inr json \<Rightarrow>
                     (let w2 = w1\<lparr>streams := (streams w1)[hout := StringIO json]\<rparr> in
                      case new_stream (StringIO json) w2 of (hin, w3) \<Rightarrow>
                        (Inr (inputs @ [(name_coll d @ ''.json'', StringIO json)]),
                         (self\<lparr>streamsRegistry := streamsRegistry self @ [hout, hin]\<rparr>, w3)))))))"

text \<open>The statements of \<open>solve\<close> before the call of \<open>execute\<close>.\<close>

definition assemble ::
  "'d service \<Rightarrow> 'd OPLCollector option \<Rightarrow> 'd state
     \<Rightarrow> (error + (string \<times> stream) list) \<times> 'd state" where
  "assemble env inputData st =
     (case model_input st of
        (Inl e, st1) \<Rightarrow> (Inl e, st1)
      | (Inr inputs, st1) \<Rightarrow>
          (case (if attachments (fst st1) \<noteq> []
                 then attachment_inputs (attachments (fst st1)) inputs st1
                 else (Inr inputs, st1)) of
             (Inl e, st2) \<Rightarrow> (Inl e, st2)
           | (Inr inputs2, st2) \<Rightarrow> data_input env inputData inputs2 st2))"

text \<open>
  The submission: \<open>execute\<close> is called with the inputs, and the job id of the response is
  stored in \<open>self.jobid\<close>.
\<close>

definition submit ::
  "'d service \<Rightarrow> (string \<times> stream) list \<Rightarrow> 'd state \<Rightarrow> (error + JobResponse) \<times> 'd state" where
  "submit env inputs st =
     (case st of (self, w) \<Rightarrow>
        (let w1 = w\<lparr>submitted := submitted w @ [inputs]\<rparr> in
         case execute env inputs of
           Inl e \<Rightarrow> (Inl e, (self, w1))
         | Inr response \<Rightarrow> (Inr response, (self\<lparr>jobid_self := Some (jobid response)\<rparr>, w1))))"

text \<open>
  The three branches on the execution status.  The result is the local variable
  \<open>solution\<close>: \<open>None\<close> when no branch has assigned it.  The \<open>FAILED\<close> branch starts
  with \<open>response.getJob()\<close> and the last branch with \<open>"Job Status: " + status\<close>; when
  either raises, nothing is printed and the branch is left.
\<close>

definition dispatch ::
  "'d service \<Rightarrow> string \<Rightarrow> JobResponse \<Rightarrow> JobExecutionStatus \<Rightarrow> 'd state
     \<Rightarrow> (error + 'd OPLCollector option) \<times> 'd state" where
  "dispatch env solutionId response status st =
     (case status of
        PROCESSED \<Rightarrow>
          (case register (StringIO (solution response)) st of (self1, w1) \<Rightarrow>
             (let self2 = self1\<lparr>solveStatus := Reported (job_info response ''solveStatus'')\<rparr> in
              case OPLCollector_fromJSON (deserialize env) (getName self2 @ ''Result'' @ solutionId)
                     (resultDataModel self2) (solution response) of
                Inl e \<Rightarrow> (Inl e, (self2, w1))
              | Inr sol \<Rightarrow> (Inr (Some sol), (self2\<lparr>history := history self2 @ [sol]\<rparr>, w1))))
      | FAILED \<Rightarrow>
          (case getJob env response of
             Some e \<Rightarrow> (Inl e, st)
           | None \<Rightarrow>
               (let message = (case failureInfo response of None \<Rightarrow> [] | Some m \<Rightarrow> m) in
                case st of (self, w) \<Rightarrow>
                  (Inr None, (self, w\<lparr>printed := printed w @ [''Failed '' @ message]\<rparr>))))
      | OtherStatus s \<Rightarrow>
          (case status_line env s of
             Inl e \<Rightarrow> (Inl e, st)
           | Inr line \<Rightarrow>
               (case st of (self, w) \<Rightarrow>
                  (Inr None, (self, w\<lparr>printed := printed w @ [line]\<rparr>)))))"

text \<open>
  The end of \<open>solve\<close>: every stream of the registry is closed, the job is deleted, and
  \<open>solution\<close> is returned; reading the unassigned local raises \<open>UnboundLocalError\<close>.
\<close>

fun close_all :: "handle list \<Rightarrow> world \<Rightarrow> world" where
  "close_all [] w = w"
| "close_all (s # ss) w = close_all ss (close_stream s w)"

definition cleanup ::
  "'d service \<Rightarrow> 'd OPLCollector option \<Rightarrow> 'd state \<Rightarrow> (error + 'd OPLCollector) \<times> 'd state" where
  "cleanup env sol st =
     (case st of (self, w) \<Rightarrow>
        (let w1 = close_all (streamsRegistry self) w in
         case jobid_self self of
           None \<Rightarrow> (Inl (AttributeError ''jobid''), (self, w1))
         | Some jid \<Rightarrow>
             (let w2 = w1\<lparr>deleted := deleted w1 @ [jid]\<rparr> in
              case delete_job env jid of
                Some e \<Rightarrow> (Inl e, (self, w2))
              | None \<Rightarrow>
                  (case sol of
                     None \<Rightarrow> (Inl (UnboundLocalError ''solution''), (self, w2))
                   | Some c \<Rightarrow> (Inr c, (self, w2))))))"

definition solve ::
  "'d service \<Rightarrow> 'd OPLCollector option \<Rightarrow> string \<Rightarrow> 'd state
     \<Rightarrow> (error + 'd OPLCollector) \<times> 'd state" where
  "solve env inputData solutionId st =
     (case assemble env inputData st of
        (Inl e, st1) \<Rightarrow> (Inl e, st1)
      | (Inr inputs, st1) \<Rightarrow>
          (case submit env inputs st1 of
             (Inl e, st2) \<Rightarrow> (Inl e, st2)
           | (Inr response, st2) \<Rightarrow>
               (case get_execution_status env (jobid response) of
                  Inl e \<Rightarrow> (Inl e, st2)
                | Inr status \<Rightarrow>
                    (case dispatch env solutionId response status st2 of
                       (Inl e, st3) \<Rightarrow> (Inl e, st3)
                     | (Inr sol, st3) \<Rightarrow> cleanup env sol st3))))"

text \<open>
  The execution status a \<open>solve\<close> call gets to see, with the response of \<open>execute\<close>:
  \<open>None\<close> when the call raises before \<open>get_execution_status\<close> has answered.
\<close>

definition execution_status ::
  "'d service \<Rightarrow> 'd OPLCollector option \<Rightarrow> 'd state \<Rightarrow> (JobResponse \<times> JobExecutionStatus) option" where
  "execution_status env inputData st =
     (case assemble env inputData st of
        (Inl e, st1) \<Rightarrow> None
      | (Inr inputs, st1) \<Rightarrow>
          (case execute env inputs of
             Inl e \<Rightarrow> None
           | Inr response \<Rightarrow>
               (case get_execution_status env (jobid response) of
                  Inl e \<Rightarrow> None
                | Inr status \<Rightarrow> Some (response, status))))"

section \<open>Example objects\<close>

text \<open>
  The orchestrator of the spec's end-to-end scenarios: problem name "Diet", one literal
  model fragment, no attachments, a result schema with the field \<open>cost\<close>.  The tables of
  a collector are kept as the text they were read from.
\<close>

definition diet :: "string Optimizer" where
  "diet = \<lparr>name = ''Diet'',
           model = Some \<lparr>name_ms = ''diet.mod'', dotMods = None, modelText = Some [''param n;'']\<rparr>,
           resultDataModel = Some [(''cost'', ''float'')],
           attachments = [], streamsRegistry = [], history = [],
           credentials = Some \<lparr>cred_url = ''https://solve'', cred_key = ''k''\<rparr>,
           jobclient = Some (''https://solve'', ''k''),
           solveStatus = UNKNOWN, jobid_self = None\<rparr>"

definition world0 :: world where
  "world0 = \<lparr>streams = [], closedStreams = {}, submitted = [], deleted = [], printed = []\<rparr>"

text \<open>
  A stub service that answers every submission with job \<open>job1\<close> and reports the given
  execution status; its responses offer \<open>getJob\<close> and its statuses are strings.
  \<open>stub_bad_solution\<close> is the same service with a solution that the collector cannot
  read, \<open>stub_delete_fails\<close> one whose \<open>delete_job\<close> raises, and \<open>stub_docloud\<close> one whose
  responses have no \<open>getJob\<close> and whose statuses are enumeration members.
\<close>

definition stub :: "JobExecutionStatus \<Rightarrow> string service" where
  "stub status =
     \<lparr>toJSON = (\<lambda>c. Inr (tables c)),
      execute = (\<lambda>inputs. Inr \<lparr>jobid = ''job1'', solution = ''cost=42.5'',
                                job_info = [''solveStatus'' \<mapsto> ''OPTIMAL_SOLUTION''],
                                failureInfo = Some ''infeasible''\<rparr>),
      get_execution_status = (\<lambda>j. Inr status),
      deserialize = (\<lambda>sch bytes. Inr bytes),
      delete_job = (\<lambda>j. None),
      getJob = (\<lambda>r. None),
      status_line = (\<lambda>s. Inr (''Job Status: '' @ s))\<rparr>"

definition stub_bad_solution :: "string service" where
  "stub_bad_solution = (stub PROCESSED)\<lparr>deserialize := (\<lambda>sch bytes. Inl (ValueError ''bad json''))\<rparr>"

definition stub_delete_fails :: "string service" where
  "stub_delete_fails = (stub PROCESSED)\<lparr>delete_job := (\<lambda>j. Some (ServiceError ''delete failed''))\<rparr>"

definition stub_docloud :: "JobExecutionStatus \<Rightarrow> string service" where
  "stub_docloud status =
     (stub status)\<lparr>getJob := (\<lambda>r. Some (AttributeError ''getJob'')),
                    status_line := (\<lambda>s. Inl (TypeError ''cannot concatenate str and JobExecutionStatus''))\<rparr>"

section \<open>ModelSource: what toStream yields\<close>

text \<open>
  C6.  What the code does: with no URL list and a non-empty text list \<open>toStream\<close> yields a
  string buffer holding the texts joined in order, and with neither list it raises "model
  source is empty"; with a non-empty URL list it raises the assertion error of the first
  \<open>urllib.FancyURLopener(f)\<close> and yields no stream.
\<close>

theorem toStream_branches:
  "(dotMods ms = Some us \<and> us \<noteq> [] \<longrightarrow>
      toStream ms = Inl (AssertionError ''proxies must be a mapping'')) \<and>
   (dotMods ms = None \<and> modelText ms = Some ts \<and> ts \<noteq> [] \<longrightarrow>
      toStream ms = Inr (StringIO (concat ts))) \<and>
   (dotMods ms = None \<and> modelText ms = None \<longrightarrow>
      toStream ms = Inl (ValueError ''model source is empty''))"
  by (cases us) (simp_all add: toStream_def fileinput_input_def FancyURLopener_def)

theorem toStream_branches_witness:
  "toStream \<lparr>name_ms = ''m.mod'', dotMods = Some [''u1'', ''u2''], modelText = None\<rparr>
     = Inl (AssertionError ''proxies must be a mapping'') \<and>
   toStream \<lparr>name_ms = ''m.mod'', dotMods = None, modelText = Some [''ab'', ''c'']\<rparr>
     = Inr (StringIO ''abc'') \<and>
   toStream \<lparr>name_ms = ''m.mod'', dotMods = None, modelText = None\<rparr>
     = Inl (ValueError ''model source is empty'')"
  using toStream_branches [of "\<lparr>name_ms = ''m.mod'', dotMods = Some [''u1'', ''u2''], modelText = None\<rparr>"
          "[''u1'', ''u2'']" "[]"]
        toStream_branches [of "\<lparr>name_ms = ''m.mod'', dotMods = None, modelText = Some [''ab'', ''c'']\<rparr>"
          "[]" "[''ab'', ''c'']"]
        toStream_branches [of "\<lparr>name_ms = ''m.mod'', dotMods = None, modelText = None\<rparr>"
          "[]" "[]"]
  by simp

text \<open>
  C8.  What the code does: with a non-empty URL list and a non-empty text list the
  constructor succeeds and keeps both; \<open>toStream\<close> then takes the URL branch, where it
  raises the assertion error of \<open>urllib.FancyURLopener(f)\<close>.  The text list is not read
  and no stream is returned.
\<close>

theorem both_lists_given:
  "us \<noteq> [] \<Longrightarrow> ts \<noteq> [] \<Longrightarrow>
   ModelSource_init nm (Some us) (Some ts)
     = Inr \<lparr>name_ms = nm, dotMods = Some us, modelText = Some ts\<rparr> \<and>
   toStream \<lparr>name_ms = nm, dotMods = Some us, modelText = Some ts\<rparr>
     = Inl (AssertionError ''proxies must be a mapping'')"
  by (cases us) (simp_all add: ModelSource_init_def toStream_def fileinput_input_def FancyURLopener_def)

theorem both_lists_given_witness:
  "ModelSource_init ''m.mod'' (Some [''u1'']) (Some [''text''])
     = Inr \<lparr>name_ms = ''m.mod'', dotMods = Some [''u1''], modelText = Some [''text'']\<rparr> \<and>
   toStream \<lparr>name_ms = ''m.mod'', dotMods = Some [''u1''], modelText = Some [''text'']\<rparr>
     = Inl (AssertionError ''proxies must be a mapping'')"
  using both_lists_given [of "[''u1'']" "[''text'']" "''m.mod''"]
  by simp

section \<open>Optimizer: the setters and attachData\<close>

text \<open>
  C5.  On an orchestrator whose model is set, \<open>setOPLModel\<close> raises "model has already
  been set" and the object is as before; on one whose result data model is set,
  \<open>setResultDataModel\<close> raises "results data model has already been defined" and the
  object is as before.
\<close>

theorem set_twice_fails:
  "(model self \<noteq> None \<longrightarrow>
      setOPLModel nm dm mt self = (Inl (ValueError ''model has already been set''), self)) \<and>
   (resultDataModel self \<noteq> None \<longrightarrow>
      setResultDataModel r self
        = (Inl (ValueError ''results data model has already been defined''), self))"
  by (simp add: setOPLModel_def setResultDataModel_def)

theorem set_twice_fails_witness:
  "setOPLModel ''other.mod'' None (Some [''dvar x;'']) diet
     = (Inl (ValueError ''model has already been set''), diet) \<and>
   setResultDataModel (Some [(''profit'', ''float'')]) diet
     = (Inl (ValueError ''results data model has already been defined''), diet)"
proof -
  have "model diet \<noteq> None" and "resultDataModel diet \<noteq> None"
    by (simp_all add: diet_def)
  then show ?thesis
    using set_twice_fails [of diet "''other.mod''" None "Some [''dvar x;'']"
            "Some [(''profit'', ''float'')]"]
    by simp
qed

lemma attachLoop_raises: "fs \<noteq> [] \<Longrightarrow> attachLoop fs m = (Inl (NameError ''os''), m)"
  by (cases fs) (simp_all add: fileName_of_def)

lemma attachData_eq:
  "attachData refs self =
     (if truthy refs then Inl (NameError ''os'') else Inr (), self\<lparr>attachments := []\<rparr>)"
  by (cases refs) (auto simp: attachData_def attachLoop_raises)



text \<open>
  C4.  What the code does on a non-empty reference list, whether or not two references
  share a stem: it assigns the empty dictionary, and the stem expression of the first
  reference raises \<open>NameError\<close>.  The duplicate test is never reached, and the map of
  before the call is gone.
\<close>

theorem attach_nonempty_raises:
  "refs \<noteq> [] \<Longrightarrow>
   attachData (Some refs) self = (Inl (NameError ''os''), self\<lparr>attachments := []\<rparr>)"
  by (simp add: attachData_eq)

theorem attach_nonempty_raises_witness:
  "attachData (Some [''a'', ''a'']) (diet\<lparr>attachments := [(''old'', ''u/old.dat'')]\<rparr>)
     = (Inl (NameError ''os''), diet\<lparr>attachments := []\<rparr>) \<and>
   attachments (snd (attachData (Some [''a'', ''a'']) (diet\<lparr>attachments := [(''old'', ''u/old.dat'')]\<rparr>)))
     \<noteq> attachments (diet\<lparr>attachments := [(''old'', ''u/old.dat'')]\<rparr>)"
  using attach_nonempty_raises [of "[''a'', ''a'']" "diet\<lparr>attachments := [(''old'', ''u/old.dat'')]\<rparr>"]
  by simp

section \<open>Optimizer.solve: the shape of a call\<close>

lemmas example_defs = execution_status_def assemble_def model_input_def truth_value_ms_def
  toStream_def data_input_def register_def new_stream_def getName_ms_def
  stub_def stub_bad_solution_def stub_delete_fails_def stub_docloud_def diet_def world0_def

lemmas solve_defs = solve_def submit_def dispatch_def cleanup_def close_stream_def
  OPLCollector_fromJSON_def getName_def

text \<open>
  Assembling the inputs only appends to the registry and creates streams; when it
  succeeds, the model stream at least has been registered.
\<close>

lemma register_eq:
  "register s st =
     ((fst st)\<lparr>streamsRegistry := streamsRegistry (fst st) @ [length (streams (snd st))]\<rparr>,
      (snd st)\<lparr>streams := streams (snd st) @ [s]\<rparr>)"
  by (simp add: register_def new_stream_def split: prod.splits)

lemma close_all_eq: "close_all hs w = w\<lparr>closedStreams := closedStreams w \<union> set hs\<rparr>"
  by (induction hs arbitrary: w) (simp_all add: close_stream_def)

lemma model_input_grows:
  assumes "model_input st = (r, st1)"
  shows "\<exists>new ss. st1 = ((fst st)\<lparr>streamsRegistry := streamsRegistry (fst st) @ new\<rparr>,
                          (snd st)\<lparr>streams := ss\<rparr>) \<and> (\<forall>i. r = Inr i \<longrightarrow> new \<noteq> [])"
proof (cases "\<exists>i. r = Inr i")
  case True
  then obtain m s where "model (fst st) = Some m" "toStream m = Inr s" "st1 = register s st"
    using assms by (auto simp: model_input_def truth_value_ms_def split: option.splits sum.splits)
  then show ?thesis by (auto simp: register_eq)
next
  case False
  then have "st1 = st"
    using assms by (auto simp: model_input_def truth_value_ms_def split: option.splits sum.splits)
  moreover have "st = ((fst st)\<lparr>streamsRegistry := streamsRegistry (fst st) @ []\<rparr>,
                       (snd st)\<lparr>streams := streams (snd st)\<rparr>)" by simp
  ultimately show ?thesis using False by metis
qed

lemma attachment_inputs_same:
  "attachment_inputs as inputs st = (r, st1) \<Longrightarrow> st1 = st"
  by (cases as) (auto simp: FancyURLopener_def)

lemma data_input_grows:
  assumes "data_input env inputData inputs st = (r, st1)"
  shows "\<exists>new ss. st1 = ((fst st)\<lparr>streamsRegistry := streamsRegistry (fst st) @ new\<rparr>,
                          (snd st)\<lparr>streams := ss\<rparr>)"
proof (cases inputData)
  case None
  then have "st1 = st" using assms by (simp add: data_input_def)
  moreover have "st = ((fst st)\<lparr>streamsRegistry := streamsRegistry (fst st) @ []\<rparr>,
                       (snd st)\<lparr>streams := streams (snd st)\<rparr>)" by simp
  ultimately show ?thesis by metis
next
  case (Some d)
  show ?thesis
  proof (cases "toJSON env d")
    case (Inl e)
    then have "st1 = ((fst st)\<lparr>streamsRegistry := streamsRegistry (fst st) @ []\<rparr>,
                      (snd st)\<lparr>streams := streams (snd st) @ [StringIO []]\<rparr>)"
      using assms Some by (simp add: data_input_def new_stream_def split: prod.splits)
    then show ?thesis by blast
  next
    case (Inr json)
    then have "\<exists>ss. st1 = ((fst st)\<lparr>streamsRegistry := streamsRegistry (fst st) @
                         [length (streams (snd st)), Suc (length (streams (snd st)))]\<rparr>,
                      (snd st)\<lparr>streams := ss\<rparr>)"
      using assms Some by (auto simp: data_input_def new_stream_def Let_def split: prod.splits)
    then show ?thesis by blast
  qed
qed

lemma assemble_grows:
  assumes "assemble env inputData st = (r, st1)"
  shows "\<exists>new ss. st1 = ((fst st)\<lparr>streamsRegistry := streamsRegistry (fst st) @ new\<rparr>,
                          (snd st)\<lparr>streams := ss\<rparr>) \<and> (\<forall>i. r = Inr i \<longrightarrow> new \<noteq> [])"
proof -
  obtain r0 st0 where m: "model_input st = (r0, st0)" by (cases "model_input st")
  from model_input_grows [OF m] obtain new0 ss0 where
    st0: "st0 = ((fst st)\<lparr>streamsRegistry := streamsRegistry (fst st) @ new0\<rparr>, (snd st)\<lparr>streams := ss0\<rparr>)"
    and ne: "\<forall>i. r0 = Inr i \<longrightarrow> new0 \<noteq> []" by blast
  show ?thesis
  proof (cases r0)
    case (Inl e)
    then have "st1 = st0" "r = Inl e" using assms m by (simp_all add: assemble_def)
    then show ?thesis using st0 by blast
  next
    case (Inr inputs)
    obtain r2 st2 where a: "(if attachments (fst st0) \<noteq> []
                 then attachment_inputs (attachments (fst st0)) inputs st0
                 else (Inr inputs, st0)) = (r2, st2)" by (metis surj_pair)
    have st2: "st2 = st0"
    proof (cases "attachments (fst st0) \<noteq> []")
      case True
      then have "attachment_inputs (attachments (fst st0)) inputs st0 = (r2, st2)"
        using a by simp
      then show ?thesis by (rule attachment_inputs_same)
    next
      case False
      then show ?thesis using a by simp
    qed
    show ?thesis
    proof (cases r2)
      case e: (Inl e)
      then have "st1 = st0" "r = Inl e" using assms m Inr a st2 by (simp_all add: assemble_def)
      then show ?thesis using st0 by blast
    next
      case i2: (Inr i2)
      have d: "data_input env inputData i2 st0 = (r, st1)"
        using assms m Inr a i2 st2 by (simp add: assemble_def)
      from data_input_grows [OF d] obtain new3 ss3 where
        "st1 = ((fst st)\<lparr>streamsRegistry := streamsRegistry (fst st) @ (new0 @ new3)\<rparr>, (snd st)\<lparr>streams := ss3\<rparr>)"
        using st0 by auto
      moreover have "new0 @ new3 \<noteq> []" using ne Inr by simp
      ultimately show ?thesis by blast
    qed
  qed
qed

lemma solve_reaches_dispatch:
  assumes "execution_status env inputData st = Some (response, status)"
  shows "\<exists>inputs new ss. new \<noteq> [] \<and>
           solve env inputData solutionId st =
             (case dispatch env solutionId response status
                     ((fst st)\<lparr>streamsRegistry := streamsRegistry (fst st) @ new,
                               jobid_self := Some (jobid response)\<rparr>,
                      (snd st)\<lparr>streams := ss, submitted := submitted (snd st) @ [inputs]\<rparr>) of
                (Inl e, st3) \<Rightarrow> (Inl e, st3)
              | (Inr sol, st3) \<Rightarrow> cleanup env sol st3)"
proof -
  obtain r st1 where a: "assemble env inputData st = (r, st1)" by (cases "assemble env inputData st")
  then obtain inputs where r: "r = Inr inputs" and e: "execute env inputs = Inr response"
    and g: "get_execution_status env (jobid response) = Inr status"
    using assms by (auto simp: execution_status_def split: sum.splits)
  from assemble_grows [OF a] r obtain new ss where
    st1: "st1 = ((fst st)\<lparr>streamsRegistry := streamsRegistry (fst st) @ new\<rparr>, (snd st)\<lparr>streams := ss\<rparr>)"
    and ne: "new \<noteq> []" by blast
  have "solve env inputData solutionId st =
             (case dispatch env solutionId response status
                     ((fst st)\<lparr>streamsRegistry := streamsRegistry (fst st) @ new,
                               jobid_self := Some (jobid response)\<rparr>,
                      (snd st)\<lparr>streams := ss, submitted := submitted (snd st) @ [inputs]\<rparr>) of
                (Inl e, st3) \<Rightarrow> (Inl e, st3)
              | (Inr sol, st3) \<Rightarrow> cleanup env sol st3)"
    using a r e g st1 by (simp add: solve_def submit_def)
  then show ?thesis using ne by blast
qed

text \<open>
  A call that never sees an execution status raises, with nothing closed and nothing
  deleted; a call that sees one runs the branch of that status and, unless the solution
  cannot be read, the closing statements.
\<close>

lemma solve_without_status:
  assumes "execution_status env inputData st = None"
  shows "\<exists>e new ss sub j. solve env inputData solutionId st =
           (Inl e, ((fst st)\<lparr>streamsRegistry := streamsRegistry (fst st) @ new, jobid_self := j\<rparr>,
                    (snd st)\<lparr>streams := ss, submitted := sub\<rparr>))"
proof -
  obtain r st1 where a: "assemble env inputData st = (r, st1)" by (cases "assemble env inputData st")
  from assemble_grows [OF a] obtain new ss where
    st1: "st1 = ((fst st)\<lparr>streamsRegistry := streamsRegistry (fst st) @ new\<rparr>, (snd st)\<lparr>streams := ss\<rparr>)"
    by blast
  show ?thesis
  proof (cases r)
    case (Inl e)
    then have "solve env inputData solutionId st =
        (Inl e, ((fst st)\<lparr>streamsRegistry := streamsRegistry (fst st) @ new,
                          jobid_self := jobid_self (fst st)\<rparr>,
                 (snd st)\<lparr>streams := ss, submitted := submitted (snd st)\<rparr>))"
      using a st1 by (simp add: solve_def)
    then show ?thesis by blast
  next
    case (Inr inputs)
    show ?thesis
    proof (cases "execute env inputs")
      case (Inl e)
      then have "solve env inputData solutionId st =
          (Inl e, ((fst st)\<lparr>streamsRegistry := streamsRegistry (fst st) @ new,
                            jobid_self := jobid_self (fst st)\<rparr>,
                   (snd st)\<lparr>streams := ss, submitted := submitted (snd st) @ [inputs]\<rparr>))"
        using a st1 Inr by (simp add: solve_def submit_def)
      then show ?thesis by blast
    next
      case response: (Inr response)
      then obtain e where "get_execution_status env (jobid response) = Inl e"
        using assms a Inr by (auto simp: execution_status_def split: sum.splits)
      then have "solve env inputData solutionId st =
          (Inl e, ((fst st)\<lparr>streamsRegistry := streamsRegistry (fst st) @ new,
                            jobid_self := Some (jobid response)\<rparr>,
                   (snd st)\<lparr>streams := ss, submitted := submitted (snd st) @ [inputs]\<rparr>))"
        using a st1 Inr response by (simp add: solve_def submit_def)
      then show ?thesis by blast
    qed
  qed
qed

lemma solve_processed:
  assumes "execution_status env inputData st = Some (response, PROCESSED)"
  shows "\<exists>inputs new ss.
           solve env inputData solutionId st =
             (case deserialize env (resultDataModel (fst st)) (solution response) of
                Inl e \<Rightarrow>
                  (Inl e,
                   ((fst st)\<lparr>streamsRegistry := streamsRegistry (fst st) @ new @ [length ss],
                             jobid_self := Some (jobid response),
                             solveStatus := Reported (job_info response ''solveStatus'')\<rparr>,
                    (snd st)\<lparr>streams := ss @ [StringIO (solution response)],
                             submitted := submitted (snd st) @ [inputs]\<rparr>))
              | Inr d \<Rightarrow>
                  (case delete_job env (jobid response) of
                     Some e \<Rightarrow> Inl e
                   | None \<Rightarrow> Inr \<lparr>name_coll = name (fst st) @ ''Result'' @ solutionId,
                                   dataModel = resultDataModel (fst st), tables = d\<rparr>,
                   ((fst st)\<lparr>streamsRegistry := streamsRegistry (fst st) @ new @ [length ss],
                             jobid_self := Some (jobid response),
                             solveStatus := Reported (job_info response ''solveStatus''),
                             history := history (fst st) @
                               [\<lparr>name_coll = name (fst st) @ ''Result'' @ solutionId,
                                 dataModel = resultDataModel (fst st), tables = d\<rparr>]\<rparr>,
                    (snd st)\<lparr>streams := ss @ [StringIO (solution response)],
                             submitted := submitted (snd st) @ [inputs],
                             closedStreams := closedStreams (snd st) \<union>
                               set (streamsRegistry (fst st) @ new @ [length ss]),
                             deleted := deleted (snd st) @ [jobid response]\<rparr>)))"
proof -
  from solve_reaches_dispatch [OF assms, of solutionId] obtain inputs new ss where
    s: "solve env inputData solutionId st =
             (case dispatch env solutionId response PROCESSED
                     ((fst st)\<lparr>streamsRegistry := streamsRegistry (fst st) @ new,
                               jobid_self := Some (jobid response)\<rparr>,
                      (snd st)\<lparr>streams := ss, submitted := submitted (snd st) @ [inputs]\<rparr>) of
                (Inl e, st3) \<Rightarrow> (Inl e, st3)
              | (Inr sol, st3) \<Rightarrow> cleanup env sol st3)"
    by blast
  have "solve env inputData solutionId st = (case deserialize env (resultDataModel (fst st)) (solution response) of
                Inl e \<Rightarrow>
                  (Inl e,
                   ((fst st)\<lparr>streamsRegistry := streamsRegistry (fst st) @ new @ [length ss],
                             jobid_self := Some (jobid response),
                             solveStatus := Reported (job_info response ''solveStatus'')\<rparr>,
                    (snd st)\<lparr>streams := ss @ [StringIO (solution response)],
                             submitted := submitted (snd st) @ [inputs]\<rparr>))
              | Inr d \<Rightarrow>
                  (case delete_job env (jobid response) of
                     Some e \<Rightarrow> Inl e
                   | None \<Rightarrow> Inr \<lparr>name_coll = name (fst st) @ ''Result'' @ solutionId,
                                   dataModel = resultDataModel (fst st), tables = d\<rparr>,
                   ((fst st)\<lparr>streamsRegistry := streamsRegistry (fst st) @ new @ [length ss],
                             jobid_self := Some (jobid response),
                             solveStatus := Reported (job_info response ''solveStatus''),
                             history := history (fst st) @
                               [\<lparr>name_coll = name (fst st) @ ''Result'' @ solutionId,
                                 dataModel = resultDataModel (fst st), tables = d\<rparr>]\<rparr>,
                    (snd st)\<lparr>streams := ss @ [StringIO (solution response)],
                             submitted := submitted (snd st) @ [inputs],
                             closedStreams := closedStreams (snd st) \<union>
                               set (streamsRegistry (fst st) @ new @ [length ss]),
                             deleted := deleted (snd st) @ [jobid response]\<rparr>)))"
    unfolding s
    by (simp add: dispatch_def register_eq OPLCollector_fromJSON_def getName_def cleanup_def
          close_all_eq Let_def split: sum.splits option.splits)
  then show ?thesis by blast
qed

lemma solve_failed:
  assumes "execution_status env inputData st = Some (response, FAILED)"
  shows "\<exists>inputs new ss. new \<noteq> [] \<and>
           solve env inputData solutionId st =
             (case getJob env response of
                Some e \<Rightarrow>
                  (Inl e,
                   ((fst st)\<lparr>streamsRegistry := streamsRegistry (fst st) @ new,
                             jobid_self := Some (jobid response)\<rparr>,
                    (snd st)\<lparr>streams := ss, submitted := submitted (snd st) @ [inputs]\<rparr>))
              | None \<Rightarrow>
                  (Inl (case delete_job env (jobid response) of
                          Some e \<Rightarrow> e | None \<Rightarrow> UnboundLocalError ''solution''),
                   ((fst st)\<lparr>streamsRegistry := streamsRegistry (fst st) @ new,
                             jobid_self := Some (jobid response)\<rparr>,
                    (snd st)\<lparr>streams := ss,
                             submitted := submitted (snd st) @ [inputs],
                             printed := printed (snd st) @
                               [''Failed '' @ (case failureInfo response of None \<Rightarrow> [] | Some m \<Rightarrow> m)],
                             closedStreams := closedStreams (snd st) \<union>
                               set (streamsRegistry (fst st) @ new),
                             deleted := deleted (snd st) @ [jobid response]\<rparr>)))"
proof -
  from solve_reaches_dispatch [OF assms, of solutionId] obtain inputs new ss where
    ne: "new \<noteq> []" and
    s: "solve env inputData solutionId st =
             (case dispatch env solutionId response FAILED
                     ((fst st)\<lparr>streamsRegistry := streamsRegistry (fst st) @ new,
                               jobid_self := Some (jobid response)\<rparr>,
                      (snd st)\<lparr>streams := ss, submitted := submitted (snd st) @ [inputs]\<rparr>) of
                (Inl e, st3) \<Rightarrow> (Inl e, st3)
              | (Inr sol, st3) \<Rightarrow> cleanup env sol st3)"
    by blast
  have "solve env inputData solutionId st =
             (case getJob env response of
                Some e \<Rightarrow>
                  (Inl e,
                   ((fst st)\<lparr>streamsRegistry := streamsRegistry (fst st) @ new,
                             jobid_self := Some (jobid response)\<rparr>,
                    (snd st)\<lparr>streams := ss, submitted := submitted (snd st) @ [inputs]\<rparr>))
              | None \<Rightarrow>
                  (Inl (case delete_job env (jobid response) of
                          Some e \<Rightarrow> e | None \<Rightarrow> UnboundLocalError ''solution''),
                   ((fst st)\<lparr>streamsRegistry := streamsRegistry (fst st) @ new,
                             jobid_self := Some (jobid response)\<rparr>,
                    (snd st)\<lparr>streams := ss,
                             submitted := submitted (snd st) @ [inputs],
                             printed := printed (snd st) @
                               [''Failed '' @ (case failureInfo response of None \<Rightarrow> [] | Some m \<Rightarrow> m)],
                             closedStreams := closedStreams (snd st) \<union>
                               set (streamsRegistry (fst st) @ new),
                             deleted := deleted (snd st) @ [jobid response]\<rparr>)))"
    unfolding s
    by (simp add: dispatch_def cleanup_def close_all_eq Let_def split: option.splits)
  then show ?thesis using ne by blast
qed

lemma solve_not_processed:
  assumes "execution_status env inputData st = Some (response, status)" and "status \<noteq> PROCESSED"
  shows "\<exists>e new j ss sub pr cl del.
           solve env inputData solutionId st =
             (Inl e,
              ((fst st)\<lparr>streamsRegistry := streamsRegistry (fst st) @ new, jobid_self := j\<rparr>,
               (snd st)\<lparr>streams := ss, submitted := sub, printed := pr,
                        closedStreams := cl, deleted := del\<rparr>))"
proof -
  from solve_reaches_dispatch [OF assms(1), of solutionId] obtain inputs new ss where
    s: "solve env inputData solutionId st =
             (case dispatch env solutionId response status
                     ((fst st)\<lparr>streamsRegistry := streamsRegistry (fst st) @ new,
                               jobid_self := Some (jobid response)\<rparr>,
                      (snd st)\<lparr>streams := ss, submitted := submitted (snd st) @ [inputs]\<rparr>) of
                (Inl e, st3) \<Rightarrow> (Inl e, st3)
              | (Inr sol, st3) \<Rightarrow> cleanup env sol st3)"
    by blast
  let ?self = "(fst st)\<lparr>streamsRegistry := streamsRegistry (fst st) @ new,
                        jobid_self := Some (jobid response)\<rparr>"
  let ?w = "(snd st)\<lparr>streams := ss, submitted := submitted (snd st) @ [inputs]\<rparr>"
  have raised: "\<exists>e pr cl del. solve env inputData solutionId st =
      (Inl e, (?self, ?w\<lparr>printed := pr, closedStreams := cl, deleted := del\<rparr>))"
  proof (cases "\<exists>e. fst (dispatch env solutionId response status (?self, ?w)) = Inl e")
    case True
    then obtain e where "dispatch env solutionId response status (?self, ?w) = (Inl e, (?self, ?w))"
      using assms(2)
      by (cases status) (auto simp: dispatch_def Let_def split: option.splits sum.splits)
    then have "solve env inputData solutionId st =
        (Inl e, (?self, ?w\<lparr>printed := printed ?w, closedStreams := closedStreams ?w,
                          deleted := deleted ?w\<rparr>))"
      unfolding s by simp
    then show ?thesis by blast
  next
    case False
    then obtain line where
      "dispatch env solutionId response status (?self, ?w)
         = (Inr None, (?self, ?w\<lparr>printed := printed ?w @ [line]\<rparr>))"
      using assms(2)
      by (cases status) (auto simp: dispatch_def Let_def split: option.splits sum.splits)
    then have "solve env inputData solutionId st =
        (Inl (case delete_job env (jobid response) of
                Some e \<Rightarrow> e | None \<Rightarrow> UnboundLocalError ''solution''),
         (?self, ?w\<lparr>printed := printed ?w @ [line],
                    closedStreams := closedStreams ?w \<union> set (streamsRegistry ?self),
                    deleted := deleted ?w @ [jobid response]\<rparr>))"
      unfolding s by (simp add: cleanup_def close_all_eq Let_def split: option.splits)
    then show ?thesis by blast
  qed
  then obtain e pr cl del where
    "solve env inputData solutionId st =
      (Inl e, (?self, ?w\<lparr>printed := pr, closedStreams := cl, deleted := del\<rparr>))"
    by blast
  then have "solve env inputData solutionId st =
             (Inl e,
              ((fst st)\<lparr>streamsRegistry := streamsRegistry (fst st) @ new,
                        jobid_self := Some (jobid response)\<rparr>,
               (snd st)\<lparr>streams := ss, submitted := submitted (snd st) @ [inputs], printed := pr,
                        closedStreams := cl, deleted := del\<rparr>))"
    by simp
  then show ?thesis by blast
qed

section \<open>Optimizer.solve: the claims\<close>

text \<open>
  C9.  On an orchestrator whose model is set and empty, \<open>solve\<close> raises "model source is
  empty" and leaves the object and the world as they were: \<open>toStream\<close> was called, since
  the test \<open>if self.model:\<close> holds for every model object, and \<open>execute\<close> was not.
\<close>

theorem solve_empty_model:
  "model self = Some m \<Longrightarrow> isEmpty m \<Longrightarrow>
   solve env inputData solutionId (self, w) = (Inl (ValueError ''model source is empty''), (self, w)) \<and>
   execution_status env inputData (self, w) = None"
  by (simp add: solve_def execution_status_def assemble_def model_input_def truth_value_ms_def
        toStream_def isEmpty_def)

theorem solve_empty_model_witness:
  "isEmpty \<lparr>name_ms = ''e.mod'', dotMods = None, modelText = None\<rparr> \<and>
   solve (stub PROCESSED) None []
       (diet\<lparr>model := Some \<lparr>name_ms = ''e.mod'', dotMods = None, modelText = None\<rparr>\<rparr>, world0)
     = (Inl (ValueError ''model source is empty''),
        (diet\<lparr>model := Some \<lparr>name_ms = ''e.mod'', dotMods = None, modelText = None\<rparr>\<rparr>, world0)) \<and>
   submitted (snd (snd (solve (stub PROCESSED) None []
       (diet\<lparr>model := Some \<lparr>name_ms = ''e.mod'', dotMods = None, modelText = None\<rparr>\<rparr>, world0)))) = []"
proof -
  have m: "model (diet\<lparr>model := Some \<lparr>name_ms = ''e.mod'', dotMods = None, modelText = None\<rparr>\<rparr>)
             = Some \<lparr>name_ms = ''e.mod'', dotMods = None, modelText = None\<rparr>"
    by simp
  have e: "isEmpty \<lparr>name_ms = ''e.mod'', dotMods = None, modelText = None\<rparr>"
    by (simp add: isEmpty_def)
  show ?thesis
    using e solve_empty_model [OF m e, of "stub PROCESSED" None "[]" world0]
    by (simp add: world0_def)
qed

text \<open>
  C2.  What the code does when the service reports \<open>FAILED\<close>: every such call raises.
  When \<open>response.getJob()\<close> does not raise, the code prints "Failed " and the message,
  closes the streams and calls \<open>delete_job\<close>, and then raises; when the deletion itself
  does not raise, the exception is the \<open>UnboundLocalError\<close> of \<open>return solution\<close>.  When
  \<open>response.getJob()\<close> raises, that exception leaves \<open>solve\<close> with nothing printed, closed
  or deleted.  No value is returned.
\<close>

theorem solve_failed_raises:
  assumes "execution_status env inputData st = Some (response, FAILED)"
  shows "(\<exists>e. fst (solve env inputData solutionId st) = Inl e) \<and>
         (getJob env response = None \<longrightarrow>
            fst (solve env inputData solutionId st)
              = Inl (case delete_job env (jobid response) of
                       Some e \<Rightarrow> e | None \<Rightarrow> UnboundLocalError ''solution'') \<and>
            printed (snd (snd (solve env inputData solutionId st)))
              = printed (snd st) @
                  [''Failed '' @ (case failureInfo response of None \<Rightarrow> [] | Some m \<Rightarrow> m)] \<and>
            deleted (snd (snd (solve env inputData solutionId st)))
              = deleted (snd st) @ [jobid response]) \<and>
         (\<forall>e. getJob env response = Some e \<longrightarrow>
            fst (solve env inputData solutionId st) = Inl e \<and>
            printed (snd (snd (solve env inputData solutionId st))) = printed (snd st) \<and>
            closedStreams (snd (snd (solve env inputData solutionId st))) = closedStreams (snd st) \<and>
            deleted (snd (snd (solve env inputData solutionId st))) = deleted (snd st))"
proof (cases "getJob env response")
  case None
  with solve_failed [OF assms, of solutionId] show ?thesis by auto
next
  case (Some e)
  with solve_failed [OF assms, of solutionId] show ?thesis by auto
qed

theorem solve_failed_raises_witness:
  "execution_status (stub FAILED) None (diet, world0)
     = Some (\<lparr>jobid = ''job1'', solution = ''cost=42.5'',
               job_info = [''solveStatus'' \<mapsto> ''OPTIMAL_SOLUTION''],
               failureInfo = Some ''infeasible''\<rparr>, FAILED) \<and>
   fst (solve (stub FAILED) None [] (diet, world0)) = Inl (UnboundLocalError ''solution'') \<and>
   printed (snd (snd (solve (stub FAILED) None [] (diet, world0)))) = [''Failed infeasible''] \<and>
   deleted (snd (snd (solve (stub FAILED) None [] (diet, world0)))) = [''job1''] \<and>
   fst (solve (stub_docloud FAILED) None [] (diet, world0)) = Inl (AttributeError ''getJob'') \<and>
   printed (snd (snd (solve (stub_docloud FAILED) None [] (diet, world0)))) = [] \<and>
   closedStreams (snd (snd (solve (stub_docloud FAILED) None [] (diet, world0)))) = {} \<and>
   deleted (snd (snd (solve (stub_docloud FAILED) None [] (diet, world0)))) = []"
proof -
  let ?r = "\<lparr>jobid = ''job1'', solution = ''cost=42.5'',
               job_info = [''solveStatus'' \<mapsto> ''OPTIMAL_SOLUTION''],
               failureInfo = Some ''infeasible''\<rparr>"
  have e: "execution_status (stub FAILED) None (diet, world0) = Some (?r, FAILED)"
    by (simp add: example_defs)
  have e2: "execution_status (stub_docloud FAILED) None (diet, world0) = Some (?r, FAILED)"
    by (simp add: example_defs)
  have a: "fst (solve (stub FAILED) None [] (diet, world0)) = Inl (UnboundLocalError ''solution'') \<and>
   printed (snd (snd (solve (stub FAILED) None [] (diet, world0)))) = [''Failed infeasible''] \<and>
   deleted (snd (snd (solve (stub FAILED) None [] (diet, world0)))) = [''job1'']"
    using solve_failed_raises [OF e, of "[]"] by (simp add: stub_def world0_def)
  have b: "fst (solve (stub_docloud FAILED) None [] (diet, world0)) = Inl (AttributeError ''getJob'') \<and>
   printed (snd (snd (solve (stub_docloud FAILED) None [] (diet, world0)))) = [] \<and>
   closedStreams (snd (snd (solve (stub_docloud FAILED) None [] (diet, world0)))) = {} \<and>
   deleted (snd (snd (solve (stub_docloud FAILED) None [] (diet, world0)))) = []"
    using solve_failed_raises [OF e2, of "[]"] by (simp add: stub_docloud_def stub_def world0_def)
  from e a b show ?thesis by simp
qed

text \<open>
  C3.  As amended: when the execution status is \<open>PROCESSED\<close> and the solution bytes
  deserialise to \<open>d\<close>, the history after the call is the history before it with one more
  entry: the collector named problem name, "Result", solution id, with the result data
  model of the orchestrator and the tables \<open>d\<close>; that entry is returned when
  \<open>delete_job\<close> does not raise.  When the call sees no \<open>PROCESSED\<close> status, the history is
  unchanged.
\<close>

theorem solve_history:
  "(execution_status env inputData st = Some (response, PROCESSED) \<longrightarrow>
      (\<forall>d. deserialize env (resultDataModel (fst st)) (solution response) = Inr d \<longrightarrow>
         history (fst (snd (solve env inputData solutionId st)))
           = history (fst st) @
               [\<lparr>name_coll = name (fst st) @ ''Result'' @ solutionId,
                 dataModel = resultDataModel (fst st), tables = d\<rparr>] \<and>
         (delete_job env (jobid response) = None \<longrightarrow>
            fst (solve env inputData solutionId st)
              = Inr \<lparr>name_coll = name (fst st) @ ''Result'' @ solutionId,
                     dataModel = resultDataModel (fst st), tables = d\<rparr>))) \<and>
   ((\<forall>r. execution_status env inputData st \<noteq> Some (r, PROCESSED)) \<longrightarrow>
      history (fst (snd (solve env inputData solutionId st))) = history (fst st))"
proof (intro conjI impI allI)
  fix d
  assume e: "execution_status env inputData st = Some (response, PROCESSED)"
    and d: "deserialize env (resultDataModel (fst st)) (solution response) = Inr d"
  from solve_processed [OF e, of solutionId] d
  show "history (fst (snd (solve env inputData solutionId st)))
           = history (fst st) @
               [\<lparr>name_coll = name (fst st) @ ''Result'' @ solutionId,
                 dataModel = resultDataModel (fst st), tables = d\<rparr>]"
    by auto
  assume "delete_job env (jobid response) = None"
  with solve_processed [OF e, of solutionId] d
  show "fst (solve env inputData solutionId st)
              = Inr \<lparr>name_coll = name (fst st) @ ''Result'' @ solutionId,
                     dataModel = resultDataModel (fst st), tables = d\<rparr>"
    by auto
next
  assume n: "\<forall>r. execution_status env inputData st \<noteq> Some (r, PROCESSED)"
  show "history (fst (snd (solve env inputData solutionId st))) = history (fst st)"
  proof (cases "execution_status env inputData st")
    case None
    from solve_without_status [OF None, of solutionId] show ?thesis by auto
  next
    case (Some p)
    then obtain r s where p: "execution_status env inputData st = Some (r, s)" by (cases p) simp
    with n have "s \<noteq> PROCESSED" by auto
    from solve_not_processed [OF p this, of solutionId] show ?thesis by auto
  qed
qed

theorem solve_history_witness:
  "history (fst (snd (solve (stub PROCESSED) None [] (diet, world0))))
     = [\<lparr>name_coll = ''DietResult'', dataModel = Some [(''cost'', ''float'')], tables = ''cost=42.5''\<rparr>] \<and>
   fst (solve (stub PROCESSED) None [] (diet, world0))
     = Inr \<lparr>name_coll = ''DietResult'', dataModel = Some [(''cost'', ''float'')], tables = ''cost=42.5''\<rparr> \<and>
   history (fst (snd (solve (stub FAILED) None [] (diet, world0)))) = []"
proof -
  let ?r = "\<lparr>jobid = ''job1'', solution = ''cost=42.5'',
               job_info = [''solveStatus'' \<mapsto> ''OPTIMAL_SOLUTION''],
               failureInfo = Some ''infeasible''\<rparr>"
  have p: "execution_status (stub PROCESSED) None (diet, world0) = Some (?r, PROCESSED)"
    by (simp add: example_defs)
  have f: "execution_status (stub FAILED) None (diet, world0) = Some (?r, FAILED)"
    by (simp add: example_defs)
  have d: "deserialize (stub PROCESSED) (resultDataModel diet) ''cost=42.5'' = Inr ''cost=42.5''"
    and j: "delete_job (stub PROCESSED) ''job1'' = None"
    and n: "name diet = ''Diet''" "resultDataModel diet = Some [(''cost'', ''float'')]" "history diet = []"
    by (simp_all add: stub_def diet_def)
  show ?thesis
    using p f d j n
      solve_history [where env = "stub PROCESSED" and inputData = None and st = "(diet, world0)"
        and response = ?r and solutionId = "[]"]
      solve_history [where env = "stub FAILED" and inputData = None and st = "(diet, world0)"
        and response = ?r and solutionId = "[]"]
    by simp
qed

text \<open>
  The claim as written fails on two \<open>PROCESSED\<close> calls.  When the solution cannot be
  read, the call raises and the history has not grown.  When \<open>delete_job\<close> raises, the
  history has grown by the entry, and the call raises instead of returning it.
\<close>

theorem solve_history_counterexample:
  "execution_status stub_bad_solution None (diet, world0)
     = Some (\<lparr>jobid = ''job1'', solution = ''cost=42.5'',
               job_info = [''solveStatus'' \<mapsto> ''OPTIMAL_SOLUTION''],
               failureInfo = Some ''infeasible''\<rparr>, PROCESSED) \<and>
   fst (solve stub_bad_solution None [] (diet, world0)) = Inl (ValueError ''bad json'') \<and>
   history (fst (snd (solve stub_bad_solution None [] (diet, world0)))) = history diet \<and>
   execution_status stub_delete_fails None (diet, world0)
     = Some (\<lparr>jobid = ''job1'', solution = ''cost=42.5'',
               job_info = [''solveStatus'' \<mapsto> ''OPTIMAL_SOLUTION''],
               failureInfo = Some ''infeasible''\<rparr>, PROCESSED) \<and>
   history (fst (snd (solve stub_delete_fails None [] (diet, world0))))
     = [\<lparr>name_coll = ''DietResult'', dataModel = Some [(''cost'', ''float'')], tables = ''cost=42.5''\<rparr>] \<and>
   fst (solve stub_delete_fails None [] (diet, world0)) = Inl (ServiceError ''delete failed'')"
  by (simp add: example_defs solve_defs)

text \<open>
  C10.  A call whose execution status is \<open>PROCESSED\<close> sets \<open>solveStatus\<close> to what
  \<open>job_info\<close> holds under \<open>solveStatus\<close>, \<open>None\<close> for a missing key; every other call
  leaves the field as it was; the constructor sets it to \<open>UNKNOWN\<close>.
\<close>

theorem solve_solveStatus:
  "(execution_status env inputData st = Some (response, PROCESSED) \<longrightarrow>
      solveStatus (fst (snd (solve env inputData solutionId st)))
        = Reported (job_info response ''solveStatus'')) \<and>
   ((\<forall>r. execution_status env inputData st \<noteq> Some (r, PROCESSED)) \<longrightarrow>
      solveStatus (fst (snd (solve env inputData solutionId st))) = solveStatus (fst st)) \<and>
   (Optimizer_init problemName m sch c atts = Inr self \<longrightarrow> solveStatus self = UNKNOWN)"
proof (intro conjI impI)
  assume e: "execution_status env inputData st = Some (response, PROCESSED)"
  from solve_processed [OF e, of solutionId]
  show "solveStatus (fst (snd (solve env inputData solutionId st)))
        = Reported (job_info response ''solveStatus'')"
    by (cases "deserialize env (resultDataModel (fst st)) (solution response)") auto
next
  assume n: "\<forall>r. execution_status env inputData st \<noteq> Some (r, PROCESSED)"
  show "solveStatus (fst (snd (solve env inputData solutionId st))) = solveStatus (fst st)"
  proof (cases "execution_status env inputData st")
    case None
    from solve_without_status [OF None, of solutionId] show ?thesis by auto
  next
    case (Some p)
    then obtain r s where p: "execution_status env inputData st = Some (r, s)" by (cases p) simp
    with n have "s \<noteq> PROCESSED" by auto
    from solve_not_processed [OF p this, of solutionId] show ?thesis by auto
  qed
next
  assume "Optimizer_init problemName m sch c atts = Inr self"
  then show "solveStatus self = UNKNOWN"
    by (auto simp: Optimizer_init_def attachData_def Let_def split: prod.splits sum.splits option.splits)
qed

theorem solve_solveStatus_witness:
  "solveStatus (fst (snd (solve (stub PROCESSED) None [] (diet, world0))))
     = Reported (Some ''OPTIMAL_SOLUTION'') \<and>
   solveStatus (fst (snd (solve
       ((stub PROCESSED)\<lparr>execute := (\<lambda>inputs. Inr \<lparr>jobid = ''job2'', solution = [],
                                                   job_info = Map.empty, failureInfo = None\<rparr>)\<rparr>)
       None [] (diet, world0))))
     = Reported None \<and>
   solveStatus (fst (snd (solve (stub FAILED) None [] (diet, world0)))) = UNKNOWN \<and>
   (\<exists>self :: string Optimizer.
      Optimizer_init ''Diet'' None None (Some \<lparr>cred_url = ''u'', cred_key = ''k''\<rparr>) [] = Inr self \<and>
      solveStatus self = UNKNOWN)"
proof -
  let ?r = "\<lparr>jobid = ''job1'', solution = ''cost=42.5'',
               job_info = [''solveStatus'' \<mapsto> ''OPTIMAL_SOLUTION''],
               failureInfo = Some ''infeasible''\<rparr>"
  let ?r2 = "\<lparr>jobid = ''job2'', solution = [], job_info = Map.empty, failureInfo = None\<rparr>"
  let ?env2 = "(stub PROCESSED)\<lparr>execute := (\<lambda>inputs. Inr ?r2)\<rparr>"
  let ?init = "\<lparr>name = ''Diet'', model = None, resultDataModel = None,
                   attachments = [], streamsRegistry = [], history = ([] :: string OPLCollector list),
                   credentials = Some \<lparr>cred_url = ''u'', cred_key = ''k''\<rparr>,
                   jobclient = Some (''u'', ''k''), solveStatus = UNKNOWN,
                   jobid_self = None\<rparr>"
  have p: "execution_status (stub PROCESSED) None (diet, world0) = Some (?r, PROCESSED)"
    by (simp add: example_defs)
  have p2: "execution_status ?env2 None (diet, world0) = Some (?r2, PROCESSED)"
    by (simp add: example_defs)
  have f: "execution_status (stub FAILED) None (diet, world0) = Some (?r, FAILED)"
    by (simp add: example_defs)
  have i: "Optimizer_init ''Diet'' None None (Some \<lparr>cred_url = ''u'', cred_key = ''k''\<rparr>) []
             = Inr ?init"
    by (simp add: Optimizer_init_def attachData_def)
  have u: "solveStatus diet = UNKNOWN" by (simp add: diet_def)
  have a: "solveStatus (fst (snd (solve (stub PROCESSED) None [] (diet, world0))))
     = Reported (Some ''OPTIMAL_SOLUTION'')"
    using p solve_solveStatus [where env = "stub PROCESSED" and inputData = None
        and st = "(diet, world0)" and response = ?r and solutionId = "[]", THEN conjunct1]
    by simp
  have b: "solveStatus (fst (snd (solve ?env2 None [] (diet, world0)))) = Reported None"
    using p2 solve_solveStatus [where env = ?env2 and inputData = None
        and st = "(diet, world0)" and response = ?r2 and solutionId = "[]", THEN conjunct1]
    by simp
  have c: "solveStatus (fst (snd (solve (stub FAILED) None [] (diet, world0)))) = UNKNOWN"
    using f u solve_solveStatus [where env = "stub FAILED" and inputData = None
        and st = "(diet, world0)" and solutionId = "[]", THEN conjunct2, THEN conjunct1]
    by simp
  have d: "solveStatus ?init = UNKNOWN"
    using i solve_solveStatus [where problemName = "''Diet''" and m = None
        and sch = None and c = "Some \<lparr>cred_url = ''u'', cred_key = ''k''\<rparr>" and atts = "[]"
        and self = ?init, THEN conjunct2, THEN conjunct2]
    by simp
  from a b c d i show ?thesis by blast
qed

text \<open>
  C1.  As amended: when a \<open>solve\<close> call has the execution status \<open>PROCESSED\<close> and has
  read the solution, then at its end every stream of the registry is closed, the
  registry is the registry of before the call followed by the streams registered during
  the call (it is not emptied), and \<open>delete_job\<close> has been called once more, with the job
  id of this call's response.
\<close>

theorem solve_cleanup:
  assumes "execution_status env inputData st = Some (response, PROCESSED)"
    and "deserialize env (resultDataModel (fst st)) (solution response) = Inr d"
  shows "set (streamsRegistry (fst (snd (solve env inputData solutionId st))))
           \<subseteq> closedStreams (snd (snd (solve env inputData solutionId st))) \<and>
         (\<exists>new. new \<noteq> [] \<and>
            streamsRegistry (fst (snd (solve env inputData solutionId st)))
              = streamsRegistry (fst st) @ new) \<and>
         deleted (snd (snd (solve env inputData solutionId st)))
           = deleted (snd st) @ [jobid response]"
proof -
  from solve_processed [OF assms(1), of solutionId] assms(2) obtain inputs new ss where
    "snd (solve env inputData solutionId st) =
                   ((fst st)\<lparr>streamsRegistry := streamsRegistry (fst st) @ new @ [length ss],
                             jobid_self := Some (jobid response),
                             solveStatus := Reported (job_info response ''solveStatus''),
                             history := history (fst st) @
                               [\<lparr>name_coll = name (fst st) @ ''Result'' @ solutionId,
                                 dataModel = resultDataModel (fst st), tables = d\<rparr>]\<rparr>,
                    (snd st)\<lparr>streams := ss @ [StringIO (solution response)],
                             submitted := submitted (snd st) @ [inputs],
                             closedStreams := closedStreams (snd st) \<union>
                               set (streamsRegistry (fst st) @ new @ [length ss]),
                             deleted := deleted (snd st) @ [jobid response]\<rparr>)"
    by auto
  then show ?thesis by auto
qed

theorem solve_cleanup_witness:
  "set (streamsRegistry (fst (snd (solve (stub PROCESSED) None [] (diet, world0)))))
     \<subseteq> closedStreams (snd (snd (solve (stub PROCESSED) None [] (diet, world0)))) \<and>
   deleted (snd (snd (solve (stub PROCESSED) None [] (diet, world0)))) = [''job1'']"
proof -
  let ?r = "\<lparr>jobid = ''job1'', solution = ''cost=42.5'',
               job_info = [''solveStatus'' \<mapsto> ''OPTIMAL_SOLUTION''],
               failureInfo = Some ''infeasible''\<rparr>"
  have p: "execution_status (stub PROCESSED) None (diet, world0) = Some (?r, PROCESSED)"
    by (simp add: example_defs)
  have d: "deserialize (stub PROCESSED) (resultDataModel (fst (diet, world0))) (solution ?r)
             = Inr ''cost=42.5''"
    by (simp add: stub_def)
  show ?thesis
    using solve_cleanup [OF p d, of "[]"] by (simp add: world0_def)
qed

text \<open>
  The claim as written fails twice.  After a successful call the registry still holds the
  two streams of the call.  When the solution cannot be read, the call raises out of the
  \<open>PROCESSED\<close> branch: the two registered streams stay open and \<open>delete_job\<close> is not
  called for the job id the call has obtained.
\<close>

theorem solve_cleanup_counterexample:
  "fst (solve (stub PROCESSED) None [] (diet, world0))
     = Inr \<lparr>name_coll = ''DietResult'', dataModel = Some [(''cost'', ''float'')], tables = ''cost=42.5''\<rparr> \<and>
   streamsRegistry (fst (snd (solve (stub PROCESSED) None [] (diet, world0)))) = [0, 1] \<and>
   fst (solve stub_bad_solution None [] (diet, world0)) = Inl (ValueError ''bad json'') \<and>
   streamsRegistry (fst (snd (solve stub_bad_solution None [] (diet, world0)))) = [0, 1] \<and>
   closedStreams (snd (snd (solve stub_bad_solution None [] (diet, world0)))) = {} \<and>
   jobid_self (fst (snd (solve stub_bad_solution None [] (diet, world0)))) = Some ''job1'' \<and>
   deleted (snd (snd (solve stub_bad_solution None [] (diet, world0)))) = []"
  by (simp add: example_defs solve_defs)

end
